theory Spec2Isabelle
  imports Complex_Main
begin

section \<open>Time values and the UTC calendar\<close>

text \<open>
  A JavaScript \<^verbatim>\<open>Date\<close> wraps a time value: the number of milliseconds since
  1970-01-01T00:00:00Z. The model writes a \<^verbatim>\<open>Date\<close> as that integer, so
  \<^verbatim>\<open>date.getTime()\<close> and \<^verbatim>\<open>new Date(ms)\<close> are the identity. An ISO-8601
  timestamp string (\<^verbatim>\<open>startTime\<close>, \<^verbatim>\<open>x\<close>) is represented by the time value
  that \<^verbatim>\<open>Date.parse\<close> gives for it, so \<^verbatim>\<open>new Date(x)\<close> is the identity as well;
  strings that do not parse (an invalid \<^verbatim>\<open>Date\<close>) are outside the model, and so is
  the bound of 8.64 * 10^15 milliseconds on a time value.
  The live clock \<^verbatim>\<open>new Date()\<close> is the explicit argument \<open>now\<close>.
\<close>

type_synonym Date = int

definition msPerHour :: int where
  "msPerHour = 60 * 60 * 1000"

definition msPerDay :: int where
  "msPerDay = 24 * 60 * 60 * 1000"

text \<open>ECMAScript's \<^verbatim>\<open>Day(t)\<close> and \<^verbatim>\<open>TimeWithinDay(t)\<close>.\<close>

definition Day :: "Date \<Rightarrow> int" where
  "Day t = t div msPerDay"

definition TimeWithinDay :: "Date \<Rightarrow> int" where
  "TimeWithinDay t = t mod msPerDay"

text \<open>
  The proleptic Gregorian calendar, which ECMAScript's \<^verbatim>\<open>YearFromTime\<close>,
  \<^verbatim>\<open>MonthFromTime\<close> and \<^verbatim>\<open>DateFromTime\<close> follow: the civil date
  (year, month 1..12, day 1..31) of a day number counted from 1970-01-01, computed in
  eras of 400 years (146097 days) that start on 1 March, and the day number of a civil date.
\<close>

definition civil_from_days :: "int \<Rightarrow> int \<times> int \<times> int" where
  "civil_from_days n =
     (let z = n + 719468;
          era = z div 146097;
          doe = z mod 146097;
          yoe = (doe - doe div 1460 + doe div 36524 - doe div 146096) div 365;
          doy = doe - (365 * yoe + yoe div 4 - yoe div 100);
          mp = (5 * doy + 2) div 153;
          d = doy - (153 * mp + 2) div 5 + 1;
          m = (if mp < 10 then mp + 3 else mp - 9);
          yr = yoe + era * 400
      in (if m \<le> 2 then yr + 1 else yr, m, d))"

definition days_from_civil :: "int \<Rightarrow> int \<Rightarrow> int \<Rightarrow> int" where
  "days_from_civil yr m d =
     (let yr' = (if m \<le> 2 then yr - 1 else yr);
          era = yr' div 400;
          yoe = yr' mod 400;
          doy = (153 * (if m > 2 then m - 3 else m + 9) + 2) div 5 + d - 1;
          doe = yoe * 365 + yoe div 4 - yoe div 100 + doy
      in era * 146097 + doe - 719468)"

definition YearFromTime :: "Date \<Rightarrow> int" where
  "YearFromTime t = fst (civil_from_days (Day t))"

text \<open>\<^verbatim>\<open>MonthFromTime\<close> counts months from 0 (January), as \<^verbatim>\<open>getUTCMonth\<close> does.\<close>

definition MonthFromTime :: "Date \<Rightarrow> int" where
  "MonthFromTime t = fst (snd (civil_from_days (Day t))) - 1"

definition DateFromTime :: "Date \<Rightarrow> int" where
  "DateFromTime t = snd (snd (civil_from_days (Day t)))"

text \<open>\<^verbatim>\<open>WeekDay(t)\<close>: 0 is Sunday; 1970-01-01 was a Thursday.\<close>

definition WeekDay :: "Date \<Rightarrow> int" where
  "WeekDay t = (Day t + 4) mod 7"

text \<open>
  \<^verbatim>\<open>MakeDay(year, month, date)\<close> for integral arguments: the day number of the first
  of the month (months beyond 0..11 carry into the year), plus \<open>date - 1\<close>, so a day of
  the month past the month's end runs on into the next month.
\<close>

definition MakeDay :: "int \<Rightarrow> int \<Rightarrow> int \<Rightarrow> int" where
  "MakeDay yr mon dt = days_from_civil (yr + mon div 12) (mon mod 12 + 1) 1 + dt - 1"

definition MakeDate :: "int \<Rightarrow> int \<Rightarrow> Date" where
  "MakeDate day time = day * msPerDay + time"

definition getUTCDate :: "Date \<Rightarrow> int" where
  "getUTCDate t = DateFromTime t"

definition getUTCMonth :: "Date \<Rightarrow> int" where
  "getUTCMonth t = MonthFromTime t"

text \<open>\<^verbatim>\<open>date.setUTCHours(h, m, s, ms)\<close> with all four arguments given.\<close>

definition setUTCHours :: "Date \<Rightarrow> int \<Rightarrow> int \<Rightarrow> int \<Rightarrow> int \<Rightarrow> Date" where
  "setUTCHours t h m s ms = MakeDate (Day t) (h * msPerHour + m * 60000 + s * 1000 + ms)"

definition setUTCDate :: "Date \<Rightarrow> int \<Rightarrow> Date" where
  "setUTCDate t dt = MakeDate (MakeDay (YearFromTime t) (MonthFromTime t) dt) (TimeWithinDay t)"

section \<open>Local dates and weekdays\<close>

text \<open>
  \<^verbatim>\<open>toLocaleDateString\<close> with \<^verbatim>\<open>timeZone: "Europe/Helsinki"\<close> reads the platform's
  time zone database. The model takes it as a parameter \<open>tz\<close>: the offset of Helsinki
  local time from UTC, in milliseconds, at a given instant (two hours in winter, three
  in summer). Every theorem below holds for any such table.
\<close>

type_synonym TimeZone = "Date \<Rightarrow> int"

text \<open>Standard time in Helsinki (EET, UTC+2), for the examples.\<close>

definition EET :: TimeZone where
  "EET t = 2 * msPerHour"

fun decimal :: "nat \<Rightarrow> string" where
  "decimal n =
     (if n < 10 then [''0123456789'' ! n]
      else decimal (n div 10) @ [''0123456789'' ! (n mod 10)])"

declare decimal.simps [simp del]

text \<open>\<^verbatim>\<open>String.prototype.padStart(pad, c)\<close> for a one-character filler.\<close>

definition padStart :: "nat \<Rightarrow> char \<Rightarrow> string \<Rightarrow> string" where
  "padStart pad c s = replicate (pad - length s) c @ s"

text \<open>
  \<^verbatim>\<open>finnishDate\<close>: the locale \<^verbatim>\<open>sv-SE\<close> writes a date as year-month-day with a numeric
  year and two-digit month and day, here for years of the common era.
\<close>

definition finnishDate :: "TimeZone \<Rightarrow> Date \<Rightarrow> string" where
  "finnishDate tz date =
     (case civil_from_days (Day (date + tz date)) of
        (yr, m, d) \<Rightarrow>
          decimal (nat yr) @ ''-'' @ padStart 2 CHR ''0'' (decimal (nat m)) @ ''-'' @
          padStart 2 CHR ''0'' (decimal (nat d)))"

text \<open>\<^verbatim>\<open>finnishWeekday\<close>: the long weekday names of the locale \<^verbatim>\<open>fi-FI\<close>, Sunday first.\<close>

definition weekdayNames :: "string list" where
  "weekdayNames =
     [''sunnuntai'', ''maanantai'', ''tiistai'', ''keskiviikko'', ''torstai'', ''perjantai'',
      ''lauantai'']"

definition finnishWeekday :: "TimeZone \<Rightarrow> Date \<Rightarrow> string" where
  "finnishWeekday tz date = weekdayNames ! nat (WeekDay (date + tz date))"

section \<open>The chart's data points\<close>

text \<open>
  One bar of the chart, as \<^verbatim>\<open>getStaticProps\<close> builds it:
  \<^verbatim>\<open>{ x: e.startTime, y: e.price * 1.24, label: (e.price * 1.24).toFixed(0) }\<close>.
  Prices are modelled in exact arithmetic, not in the binary64 numbers of the source, so
  \<open>y\<close>, \<open>label\<close> and a colour at a limit can differ from the source's in the last
  digit; no property below depends on them. The page's functions below take the series
  \<^verbatim>\<open>data.datasets[0].data\<close> itself as their argument \<open>series\<close>.
\<close>

record point =
  x :: Date
  y :: rat
  label :: string

section \<open>The current hour\<close>

text \<open>\<^verbatim>\<open>Array.prototype.findIndex\<close>: the first index whose element satisfies the test, or -1.\<close>

fun findIndexFrom :: "('a \<Rightarrow> bool) \<Rightarrow> nat \<Rightarrow> 'a list \<Rightarrow> int" where
  "findIndexFrom P k [] = - 1"
| "findIndexFrom P k (e # es) = (if P e then int k else findIndexFrom P (Suc k) es)"

definition findIndex :: "('a \<Rightarrow> bool) \<Rightarrow> 'a list \<Rightarrow> int" where
  "findIndex P es = findIndexFrom P 0 es"

text \<open>The test of \<^verbatim>\<open>findCurrentTimeIndex\<close>: \<open>now\<close> lies in the hour that starts at \<open>x\<close>.\<close>

definition inHour :: "Date \<Rightarrow> point \<Rightarrow> bool" where
  "inHour now p =
     (let startTime = x p;
          endTime = startTime + 60 * 60 * 1000
      in now \<ge> startTime \<and> now < endTime)"

definition findCurrentTimeIndex :: "Date \<Rightarrow> point list \<Rightarrow> int" where
  "findCurrentTimeIndex now series = findIndex (inHour now) series"

definition maxPrice :: rat where
  "maxPrice = 100"

datatype AnnotationOptions =
    Box rat rat rat rat string rat
  | Line rat rat rat rat string
  | Label rat string rat string string

text \<open>
  The constructors carry the fields in the order the source writes them:
  \<open>Box xMin xMax yMin yMax backgroundColor borderWidth\<close>,
  \<open>Line yMin yMax xMin xMax borderColor\<close> and
  \<open>Label xValue position yValue content color\<close>.
\<close>

definition annotateCurrentTime :: "bool \<Rightarrow> Date \<Rightarrow> point list \<Rightarrow> AnnotationOptions option" where
  "annotateCurrentTime darkMode now series =
     (let currentIndex = findCurrentTimeIndex now series
      in if currentIndex = - 1 then None
         else Some (Box (of_int currentIndex - 1 / 2) (of_int currentIndex + 1 / 2) 0 maxPrice
                      (if darkMode then ''rgba(255,255,255, 0.3)'' else ''rgba(205, 237, 246, 0.45)'')
                      0))"

section \<open>Day changes\<close>

text \<open>
  A JavaScript exception that nothing catches: the call that raises it aborts (an
  \<^verbatim>\<open>async\<close> function's promise rejects). Functions that can throw return
  \<open>exception + 'a\<close>, with \<open>Inl\<close> for the exception thrown.
\<close>

datatype exception = TypeError | SyntaxError

text \<open>\<^verbatim>\<open>Array.prototype.map\<close> with a callback that may throw: the first exception aborts the map.\<close>

fun mapE :: "('a \<Rightarrow> exception + 'b) \<Rightarrow> 'a list \<Rightarrow> exception + 'b list" where
  "mapE f [] = Inr []"
| "mapE f (a # as) =
     (case f a of
        Inl e \<Rightarrow> Inl e
      | Inr b \<Rightarrow> (case mapE f as of Inl e \<Rightarrow> Inl e | Inr bs \<Rightarrow> Inr (b # bs)))"

text \<open>
  \<^verbatim>\<open>Array.prototype.slice(start, end)\<close> and \<^verbatim>\<open>slice(start)\<close>: a negative index counts
  from the end of the array, and both ends are clamped to the array.
\<close>

definition relativeIndex :: "int \<Rightarrow> int \<Rightarrow> int" where
  "relativeIndex len i = (if i < 0 then max (len + i) 0 else min i len)"

definition slice :: "int \<Rightarrow> int \<Rightarrow> 'a list \<Rightarrow> 'a list" where
  "slice start fin es =
     (let len = int (length es);
          k = relativeIndex len start;
          final = relativeIndex len fin
      in take (nat (final - k)) (drop (nat k) es))"

definition sliceFrom :: "int \<Rightarrow> 'a list \<Rightarrow> 'a list" where
  "sliceFrom start es = drop (nat (relativeIndex (int (length es)) start)) es"

text \<open>\<^verbatim>\<open>Array.prototype.reduce\<close> with an initial value; the callback also gets the index.\<close>

fun reduceFrom :: "('b \<Rightarrow> 'a \<Rightarrow> nat \<Rightarrow> 'b) \<Rightarrow> 'b \<Rightarrow> nat \<Rightarrow> 'a list \<Rightarrow> 'b" where
  "reduceFrom f acc i [] = acc"
| "reduceFrom f acc i (e # es) = reduceFrom f (f acc e i) (Suc i) es"

definition reduce :: "('b \<Rightarrow> 'a \<Rightarrow> nat \<Rightarrow> 'b) \<Rightarrow> 'b \<Rightarrow> 'a list \<Rightarrow> 'b" where
  "reduce f init es = reduceFrom f init 0 es"

record accumulator =
  lastDate :: string
  indices :: "nat list"

text \<open>
  The callback of the \<^verbatim>\<open>reduce\<close> in \<^verbatim>\<open>annotateDayChanges\<close>. The test
  \<^verbatim>\<open>if (acc.lastDate)\<close> holds for every string but the empty one.
\<close>

definition dayChange :: "TimeZone \<Rightarrow> accumulator \<Rightarrow> point \<Rightarrow> nat \<Rightarrow> accumulator" where
  "dayChange tz acc p i =
     (let date = finnishDate tz (x p)
      in if lastDate acc \<noteq> date
         then (if lastDate acc \<noteq> [] then acc\<lparr>indices := indices acc @ [i]\<rparr> else acc)
                \<lparr>lastDate := date\<rparr>
         else acc)"

definition foo :: "TimeZone \<Rightarrow> point list \<Rightarrow> accumulator" where
  "foo tz series = reduce (dayChange tz) \<lparr>lastDate = [], indices = []\<rparr> series"

definition dayLine :: "bool \<Rightarrow> nat \<Rightarrow> AnnotationOptions" where
  "dayLine darkMode i =
     Line 0 maxPrice (of_nat i - 1 / 2) (of_nat i - 1 / 2)
       (if darkMode then ''rgba(255,255,255,0.5)'' else ''rgba(0,0,0,0.5)'')"

text \<open>
  The weekday label of index \<open>i\<close>. Reading \<^verbatim>\<open>data[i].x\<close> past the end of the array
  is a \<^verbatim>\<open>TypeError\<close> (a property of \<^verbatim>\<open>undefined\<close>).
\<close>

definition weekdayLabel :: "TimeZone \<Rightarrow> bool \<Rightarrow> point list \<Rightarrow> nat \<Rightarrow> AnnotationOptions" where
  "weekdayLabel tz darkMode series i =
     Label (of_nat i + 1) ''start'' (maxPrice - 1) (finnishWeekday tz (x (series ! i)))
       (if darkMode then ''rgba(255,255,255,0.5)'' else ''rgba(0,0,0,0.5)'')"

definition dayLabel :: "TimeZone \<Rightarrow> bool \<Rightarrow> point list \<Rightarrow> nat \<Rightarrow> exception + AnnotationOptions" where
  "dayLabel tz darkMode series i =
     (if i < length series then Inr (weekdayLabel tz darkMode series i) else Inl TypeError)"

definition annotateDayChanges :: "TimeZone \<Rightarrow> bool \<Rightarrow> point list \<Rightarrow> exception + AnnotationOptions list" where
  "annotateDayChanges tz darkMode series =
     (let a1 = map (dayLine darkMode) (indices (foo tz series))
      in if length series > 0
         then (case mapE (dayLabel tz darkMode series) (0 # indices (foo tz series)) of
                 Inl e \<Rightarrow> Inl e
               | Inr labels \<Rightarrow> Inr (a1 @ slice 0 (- 1) labels))
         else Inr a1)"

section \<open>Fetching and assembling the series\<close>

record HourPrice =
  startTime :: Date
  price :: rat

record DayPrice =
  date :: string
  hourPrices :: "HourPrice list"

text \<open>
  The outcome of one request, as \<^verbatim>\<open>Promise.allSettled\<close> reports it, and the part of
  S3's answer that the page reads.
\<close>

datatype 'a PromiseSettledResult = fulfilled 'a | rejected

record GetObjectOutput =
  Body :: "string option"

fun isFulfilled :: "'a PromiseSettledResult \<Rightarrow> bool" where
  "isFulfilled (fulfilled v) = True"
| "isFulfilled rejected = False"

text \<open>
  The bucket is a parameter \<open>s3\<close>: what the request for a key settles to. So is
  \<^verbatim>\<open>JSON.parse\<close>, read at the type the source casts its result to: \<open>None\<close> stands for
  the \<^verbatim>\<open>SyntaxError\<close> it throws on text that is not JSON.
\<close>

type_synonym S3 = "string \<Rightarrow> GetObjectOutput PromiseSettledResult"

type_synonym JSON = "string \<Rightarrow> DayPrice option"

definition colorDataPoint :: "rat \<Rightarrow> string" where
  "colorDataPoint v =
     (case find (\<lambda>(upperLimit, color). v \<le> upperLimit)
             [(5.0, ''#087E8B''), (20.0, ''#FFE548''), (40.0, ''#FFB20F''), (60.0, ''#FF7F27'')] of
        Some (upperLimit, color) \<Rightarrow> color
      | None \<Rightarrow> ''#FF4B3E'')"

text \<open>\<^verbatim>\<open>Number.prototype.toFixed(0)\<close> below 10^21: the nearest integer, halves away from zero.\<close>

definition toFixed0 :: "rat \<Rightarrow> string" where
  "toFixed0 v = (if v < 0 then ''-'' else []) @ decimal (nat \<lfloor>\<bar>v\<bar> + 1 / 2\<rfloor>)"

definition dateStrings :: "TimeZone \<Rightarrow> Date \<Rightarrow> string list" where
  "dateStrings tz now = map (\<lambda>i. finnishDate tz (now + i * 24 * 60 * 60 * 1000)) [- 1, 0, 1]"

text \<open>The three requests, in the state \<^verbatim>\<open>await Promise.allSettled(requests)\<close> finds them.\<close>

definition requests :: "TimeZone \<Rightarrow> S3 \<Rightarrow> Date \<Rightarrow> GetObjectOutput PromiseSettledResult list" where
  "requests tz s3 now = map (\<lambda>date. s3 (date @ ''.json'')) (dateStrings tz now)"

definition parseBody :: "JSON \<Rightarrow> GetObjectOutput PromiseSettledResult \<Rightarrow> exception + DayPrice" where
  "parseBody parse v =
     (case v of
        fulfilled val \<Rightarrow>
          (case parse (case Body val of Some b \<Rightarrow> b | None \<Rightarrow> ''{hourPrices: []}'') of
             Some d \<Rightarrow> Inr d
           | None \<Rightarrow> Inl SyntaxError)
      | rejected \<Rightarrow> Inl TypeError)"

text \<open>The settled requests that are kept: \<^verbatim>\<open>.filter(isFulfilled).slice(-2)\<close>.\<close>

definition retained :: "TimeZone \<Rightarrow> S3 \<Rightarrow> Date \<Rightarrow> GetObjectOutput PromiseSettledResult list" where
  "retained tz s3 now = sliceFrom (- 2) (filter isFulfilled (requests tz s3 now))"

definition results :: "TimeZone \<Rightarrow> JSON \<Rightarrow> S3 \<Rightarrow> Date \<Rightarrow> exception + DayPrice list" where
  "results tz parse s3 now = mapE (parseBody parse) (retained tz s3 now)"

definition dataset :: "DayPrice list \<Rightarrow> point list" where
  "dataset rs =
     concat (map (\<lambda>d. map (\<lambda>e. \<lparr>x = startTime e, y = price e * 1.24,
                                   label = toFixed0 (price e * 1.24)\<rparr>) (hourPrices d)) rs)"

text \<open>
  The refresh schedule of \<^verbatim>\<open>getStaticProps\<close>: \<open>nextUpdate\<close> is \<open>now\<close> with its UTC
  time set to 12:00, moved to the day of the month after \<open>now\<close>'s when the test on the last
  start time holds. \<^verbatim>\<open>Math.floor\<close> of a difference of time values divided by 1000 is
  the integer quotient rounded down.
\<close>

definition nextUpdate :: "Date \<Rightarrow> Date \<Rightarrow> Date" where
  "nextUpdate now lastStartTime =
     (let noon = setUTCHours now 12 0 0 0
      in if getUTCDate lastStartTime > getUTCDate now \<or> getUTCMonth lastStartTime > getUTCMonth now
         then setUTCDate noon (getUTCDate now + 1)
         else noon)"

definition dataValidForSeconds :: "Date \<Rightarrow> Date \<Rightarrow> int" where
  "dataValidForSeconds now lastStartTime = max ((nextUpdate now lastStartTime - now) div 1000) 60"

record StaticProps =
  backgroundColor :: "string list"
  data :: "point list"
  revalidate :: int

text \<open>
  \<^verbatim>\<open>getStaticProps\<close>. Reading \<^verbatim>\<open>dataset.slice(-1)[0].x\<close> of an empty dataset is a
  \<^verbatim>\<open>TypeError\<close>. The result flattens \<^verbatim>\<open>props.data.datasets[0]\<close> and leaves out its
  constant \<^verbatim>\<open>datalabels\<close>.
\<close>

definition getStaticProps :: "TimeZone \<Rightarrow> JSON \<Rightarrow> S3 \<Rightarrow> Date \<Rightarrow> exception + StaticProps" where
  "getStaticProps tz parse s3 now =
     (case results tz parse s3 now of
        Inl e \<Rightarrow> Inl e
      | Inr rs \<Rightarrow>
          (case sliceFrom (- 1) (dataset rs) of
             [] \<Rightarrow> Inl TypeError
           | p # ps \<Rightarrow>
               Inr \<lparr>backgroundColor = map (\<lambda>q. colorDataPoint (y q)) (dataset rs),
                    data = dataset rs,
                    revalidate = dataValidForSeconds now (x p)\<rparr>))"

section \<open>Predicates and examples for the properties\<close>

text \<open>Two points whose hours do not overlap: one hour ends before the other starts.\<close>

definition apart :: "point \<Rightarrow> point \<Rightarrow> bool" where
  "apart p q = (x p + 60 * 60 * 1000 \<le> x q \<or> x q + 60 * 60 * 1000 \<le> x p)"

text \<open>A series whose hourly intervals are non-overlapping: every two of its entries are apart.\<close>

fun nonOverlapping :: "point list \<Rightarrow> bool" where
  "nonOverlapping [] = True"
| "nonOverlapping (p # ps) = ((\<forall>q \<in> set ps. apart p q) \<and> nonOverlapping ps)"

text \<open>The kind of an annotation (its \<^verbatim>\<open>type\<close>: \<^verbatim>\<open>'line'\<close> or \<^verbatim>\<open>'label'\<close>).\<close>

fun isLine :: "AnnotationOptions \<Rightarrow> bool" where
  "isLine (Line a b c d e) = True"
| "isLine (Box a b c d e f) = False"
| "isLine (Label a b c d e) = False"

fun isLabel :: "AnnotationOptions \<Rightarrow> bool" where
  "isLabel (Label a b c d e) = True"
| "isLabel (Box a b c d e f) = False"
| "isLabel (Line a b c d e) = False"

text \<open>The Helsinki-local calendar dates of a series, entry by entry.\<close>

definition localDates :: "TimeZone \<Rightarrow> point list \<Rightarrow> string list" where
  "localDates tz series = map (\<lambda>p. finnishDate tz (x p)) series"

text \<open>
  Equal elements are contiguous: once the run of \<open>d\<close> at the head of the list is over,
  \<open>d\<close> does not come back.
\<close>

fun contiguous :: "'a list \<Rightarrow> bool" where
  "contiguous [] = True"
| "contiguous (d # ds) = (d \<notin> set (dropWhile (\<lambda>e. e = d) ds) \<and> contiguous ds)"

text \<open>The number of places where an element differs from the one before it.\<close>

fun changes :: "'a list \<Rightarrow> nat" where
  "changes (a # b # ds) = (if a \<noteq> b then 1 else 0) + changes (b # ds)"
| "changes [a] = 0"
| "changes [] = 0"

text \<open>\<open>n\<close> consecutive hours from \<open>t0\<close> on, at price 10.\<close>

definition hours :: "Date \<Rightarrow> nat \<Rightarrow> HourPrice list" where
  "hours t0 n = map (\<lambda>i. \<lparr>startTime = t0 + int i * msPerHour, price = 10\<rparr>) [0..<n]"

text \<open>
  The Helsinki days 2022-12-31 (a Saturday) and 2023-01-01, in standard time: 48 hours
  from 2022-12-30T22:00Z to 2023-01-01T21:00Z.
\<close>

definition saturday :: DayPrice where
  "saturday = \<lparr>date = ''2022-12-31'', hourPrices = hours 1672437600000 24\<rparr>"

definition sunday :: DayPrice where
  "sunday = \<lparr>date = ''2023-01-01'', hourPrices = hours 1672524000000 24\<rparr>"

definition weekend :: "point list" where
  "weekend = dataset [saturday, sunday]"

definition friday :: DayPrice where
  "friday = \<lparr>date = ''2022-12-30'', hourPrices = hours 1672351200000 24\<rparr>"

text \<open>
  A bucket given by the keys it holds, each with the name of its text, and a parser that
  knows the texts of these days by name.
\<close>

definition bucketOf :: "(string \<times> string) list \<Rightarrow> S3" where
  "bucketOf table key =
     (case map_of table key of
        Some body \<Rightarrow> fulfilled \<lparr>Body = Some body\<rparr>
      | None \<Rightarrow> rejected)"

text \<open>The Helsinki day 2023-01-31, a Tuesday and the last day of its month.\<close>

definition tuesday :: DayPrice where
  "tuesday = \<lparr>date = ''2023-01-31'', hourPrices = hours 1675116000000 24\<rparr>"

definition parseDay :: JSON where
  "parseDay body =
     (if body = ''friday'' then Some friday
      else if body = ''saturday'' then Some saturday
      else if body = ''sunday'' then Some sunday
      else if body = ''tuesday'' then Some tuesday
      else None)"

text \<open>The bucket before and after the prices of 2023-01-01 are published.\<close>

definition untilSaturday :: "(string \<times> string) list" where
  "untilSaturday = [(''2022-12-30.json'', ''friday''), (''2022-12-31.json'', ''saturday'')]"

definition untilSunday :: "(string \<times> string) list" where
  "untilSunday = untilSaturday @ [(''2023-01-01.json'', ''sunday'')]"

text \<open>A bucket that holds the prices of 2023-01-31 and of no later day.\<close>

definition onlyTuesday :: "(string \<times> string) list" where
  "onlyTuesday = [(''2023-01-31.json'', ''tuesday'')]"

text \<open>A day set is in order when its hours are strictly increasing by start time.\<close>

definition hoursIncreasing :: "DayPrice \<Rightarrow> bool" where
  "hoursIncreasing d = sorted_wrt (<) (map startTime (hourPrices d))"

text \<open>
  Four entries over three Helsinki dates: Saturday 2022-12-31 at 23:00, Sunday 2023-01-01
  at 00:00 and at 23:00, Monday 2023-01-02 at 00:00.
\<close>

definition turns :: "point list" where
  "turns =
     [\<lparr>x = 1672520400000, y = 62 / 5, label = ''12''\<rparr>,
      \<lparr>x = 1672524000000, y = 62 / 5, label = ''12''\<rparr>,
      \<lparr>x = 1672606800000, y = 62 / 5, label = ''12''\<rparr>,
      \<lparr>x = 1672610400000, y = 62 / 5, label = ''12''\<rparr>]"

text \<open>
  Helsinki time in 2023: summer time (UTC+3) from 2023-03-26T01:00Z until
  2023-10-29T01:00Z, standard time (UTC+2) otherwise.
\<close>

definition helsinki2023 :: TimeZone where
  "helsinki2023 t =
     (if 1679792400000 \<le> t \<and> t < 1698541200000 then 3 * msPerHour else 2 * msPerHour)"

text \<open>
  The Helsinki day 2023-10-29, on which summer time ends: 25 hours, from 2023-10-28T21:00Z
  to 2023-10-29T21:00Z. A bucket that holds its prices and those of no later day, and a
  parser that knows its text by name.
\<close>

definition october29 :: DayPrice where
  "october29 = \<lparr>date = ''2023-10-29'', hourPrices = hours 1698526800000 25\<rparr>"

definition onlyOctober29 :: "(string \<times> string) list" where
  "onlyOctober29 = [(''2023-10-29.json'', ''october29'')]"

definition parseOctober :: JSON where
  "parseOctober body = (if body = ''october29'' then Some october29 else None)"

section \<open>Properties of the current-hour locator\<close>

lemma findIndexFrom_none: "findIndexFrom P k es = - 1 \<longleftrightarrow> (\<forall>e \<in> set es. \<not> P e)"
  by (induction es arbitrary: k) auto

lemma findIndexFrom_first:
  "findIndexFrom P k es \<noteq> - 1 \<Longrightarrow>
   \<exists>i < length es. findIndexFrom P k es = int (k + i) \<and> P (es ! i) \<and> (\<forall>j < i. \<not> P (es ! j))"
proof (induction es arbitrary: k)
  case Nil
  then show ?case by simp
next
  case (Cons e es)
  show ?case
  proof (cases "P e")
    case True
    then have "findIndexFrom P k (e # es) = int (k + 0) \<and> P ((e # es) ! 0) \<and>
        (\<forall>j < 0. \<not> P ((e # es) ! j))"
      by simp
    then show ?thesis by blast
  next
    case False
    with Cons.prems have "findIndexFrom P (Suc k) es \<noteq> - 1" by simp
    from Cons.IH [OF this] obtain i where i: "i < length es"
      "findIndexFrom P (Suc k) es = int (Suc k + i)" "P (es ! i)" "\<forall>j < i. \<not> P (es ! j)"
      by blast
    have "\<forall>j < Suc i. \<not> P ((e # es) ! j)"
      using False i(4) by (auto simp: less_Suc_eq_0_disj)
    with i False have "Suc i < length (e # es) \<and> findIndexFrom P k (e # es) = int (k + Suc i) \<and>
        P ((e # es) ! Suc i) \<and> (\<forall>j < Suc i. \<not> P ((e # es) ! j))"
      by simp
    then show ?thesis by blast
  qed
qed

lemma inHour_iff: "inHour now p \<longleftrightarrow> x p \<le> now \<and> now < x p + 60 * 60 * 1000"
  by (simp add: inHour_def Let_def)

lemma nonOverlapping_sorted_wrt: "nonOverlapping ps = sorted_wrt apart ps"
  by (induction ps) auto

lemma apart_sym: "apart p q \<Longrightarrow> apart q p"
  by (auto simp: apart_def)

lemma nonOverlapping_nth:
  assumes "nonOverlapping ps" "i < length ps" "j < length ps" "i \<noteq> j"
  shows "apart (ps ! i) (ps ! j)"
proof (cases "i < j")
  case True
  with assms show ?thesis by (simp add: nonOverlapping_sorted_wrt sorted_wrt_iff_nth_less)
next
  case False
  with assms have "j < i" by simp
  with assms have "apart (ps ! j) (ps ! i)"
    by (simp add: nonOverlapping_sorted_wrt sorted_wrt_iff_nth_less)
  then show ?thesis by (rule apart_sym)
qed

lemma nonOverlapping_unique:
  assumes "nonOverlapping series" "i < length series" "j < length series"
    "inHour now (series ! i)" "inHour now (series ! j)"
  shows "i = j"
proof (rule ccontr)
  assume "i \<noteq> j"
  with assms(1-3) have "apart (series ! i) (series ! j)"
    by (rule nonOverlapping_nth)
  with assms(4,5) show False by (auto simp: inHour_iff apart_def)
qed

lemma findCurrentTimeIndex_at:
  assumes "nonOverlapping series" "i < length series" "inHour now (series ! i)"
  shows "findCurrentTimeIndex now series = int i"
proof -
  from assms(2,3) have "findIndexFrom (inHour now) 0 series \<noteq> - 1"
    by (auto simp: findIndexFrom_none)
  from findIndexFrom_first [OF this] obtain k where k: "k < length series"
    "findIndexFrom (inHour now) 0 series = int (0 + k)" "inHour now (series ! k)"
    by blast
  have "k = i" using nonOverlapping_unique [OF assms(1) k(1) assms(2) k(3) assms(3)] .
  with k(2) show ?thesis
    by (simp add: findCurrentTimeIndex_def findIndex_def)
qed

text \<open>
  Claim C4. For a series whose hourly intervals do not overlap and any time \<open>now\<close>,
  \<^verbatim>\<open>findCurrentTimeIndex\<close> returns -1 ("not found") if and only if \<open>now\<close> lies outside the
  interval [x, x + 1h) of every entry; and if \<open>now\<close> lies in the interval of the entry at
  index \<open>i\<close>, it returns exactly \<open>i\<close>.
\<close>

theorem findCurrentTimeIndex_locates:
  assumes "nonOverlapping series"
  shows "(findCurrentTimeIndex now series = - 1 \<longleftrightarrow>
            (\<forall>p \<in> set series. \<not> (x p \<le> now \<and> now < x p + 60 * 60 * 1000))) \<and>
         (\<forall>i < length series.
            x (series ! i) \<le> now \<and> now < x (series ! i) + 60 * 60 * 1000 \<longrightarrow>
            findCurrentTimeIndex now series = int i)"
proof (intro conjI allI impI)
  show "findCurrentTimeIndex now series = - 1 \<longleftrightarrow>
          (\<forall>p \<in> set series. \<not> (x p \<le> now \<and> now < x p + 60 * 60 * 1000))"
    by (simp add: findCurrentTimeIndex_def findIndex_def findIndexFrom_none inHour_iff)
next
  fix i
  assume "i < length series"
    and "x (series ! i) \<le> now \<and> now < x (series ! i) + 60 * 60 * 1000"
  then show "findCurrentTimeIndex now series = int i"
    using assms by (simp add: findCurrentTimeIndex_at inHour_iff)
qed

lemma weekend_nonOverlapping: "nonOverlapping weekend"
  by code_simp

lemma weekend_length: "length weekend = 48"
  by code_simp

lemma weekend_tenth: "x (weekend ! 9) = 1672470000000"
  by code_simp

theorem findCurrentTimeIndex_locates_witness:
  "nonOverlapping weekend \<and> findCurrentTimeIndex 1672471800000 weekend = 9 \<and>
   findCurrentTimeIndex 1672437599999 weekend = - 1"
proof -
  have out: "\<forall>p \<in> set weekend. \<not> (x p \<le> 1672437599999 \<and> 1672437599999 < x p + 60 * 60 * 1000)"
    by code_simp
  from findCurrentTimeIndex_locates [OF weekend_nonOverlapping, of 1672471800000]
  have "\<forall>i < length weekend.
      x (weekend ! i) \<le> 1672471800000 \<and> 1672471800000 < x (weekend ! i) + 60 * 60 * 1000 \<longrightarrow>
      findCurrentTimeIndex 1672471800000 weekend = int i"
    by (rule conjunct2)
  then have "9 < length weekend \<longrightarrow>
      x (weekend ! 9) \<le> 1672471800000 \<and> 1672471800000 < x (weekend ! 9) + 60 * 60 * 1000 \<longrightarrow>
      findCurrentTimeIndex 1672471800000 weekend = int 9"
    by blast
  then have "findCurrentTimeIndex 1672471800000 weekend = 9"
    using weekend_length weekend_tenth by simp
  moreover from findCurrentTimeIndex_locates [OF weekend_nonOverlapping, of 1672437599999] out
  have "findCurrentTimeIndex 1672437599999 weekend = - 1" by blast
  ultimately show ?thesis using weekend_nonOverlapping by simp
qed

section \<open>Properties of the current-hour box\<close>

text \<open>
  Claim C10. \<^verbatim>\<open>annotateCurrentTime\<close> returns a box if and only if
  \<^verbatim>\<open>findCurrentTimeIndex\<close> finds an index (its result is not -1); the box then spans
  [index - 0.5, index + 0.5] horizontally and [0, maxPrice], the whole value axis,
  vertically. In particular, for a series of 48 non-overlapping hours and \<open>now\<close> 30
  minutes after the start of its tenth entry (index 9), the box spans [8.5, 9.5].
\<close>

theorem annotateCurrentTime_box:
  "(annotateCurrentTime darkMode now series \<noteq> None \<longleftrightarrow> findCurrentTimeIndex now series \<noteq> - 1) \<and>
   (findCurrentTimeIndex now series \<noteq> - 1 \<longrightarrow>
      annotateCurrentTime darkMode now series =
        Some (Box (of_int (findCurrentTimeIndex now series) - 1 / 2)
                  (of_int (findCurrentTimeIndex now series) + 1 / 2) 0 maxPrice
                  (if darkMode then ''rgba(255,255,255, 0.3)'' else ''rgba(205, 237, 246, 0.45)'')
                  0)) \<and>
   (length series = 48 \<and> nonOverlapping series \<and> now = x (series ! 9) + 30 * 60 * 1000 \<longrightarrow>
      annotateCurrentTime darkMode now series =
        Some (Box (17 / 2) (19 / 2) 0 maxPrice
                  (if darkMode then ''rgba(255,255,255, 0.3)'' else ''rgba(205, 237, 246, 0.45)'')
                  0))"
proof (intro conjI impI)
  show "annotateCurrentTime darkMode now series \<noteq> None \<longleftrightarrow> findCurrentTimeIndex now series \<noteq> - 1"
    by (simp add: annotateCurrentTime_def Let_def)
next
  assume "findCurrentTimeIndex now series \<noteq> - 1"
  then show "annotateCurrentTime darkMode now series =
        Some (Box (of_int (findCurrentTimeIndex now series) - 1 / 2)
                  (of_int (findCurrentTimeIndex now series) + 1 / 2) 0 maxPrice
                  (if darkMode then ''rgba(255,255,255, 0.3)'' else ''rgba(205, 237, 246, 0.45)'')
                  0)"
    by (simp add: annotateCurrentTime_def Let_def)
next
  assume a: "length series = 48 \<and> nonOverlapping series \<and> now = x (series ! 9) + 30 * 60 * 1000"
  then have "inHour now (series ! 9)" by (simp add: inHour_iff)
  with a have "findCurrentTimeIndex now series = int 9"
    by (intro findCurrentTimeIndex_at) simp_all
  then show "annotateCurrentTime darkMode now series =
        Some (Box (17 / 2) (19 / 2) 0 maxPrice
                  (if darkMode then ''rgba(255,255,255, 0.3)'' else ''rgba(205, 237, 246, 0.45)'')
                  0)"
    by (simp add: annotateCurrentTime_def Let_def)
qed

theorem annotateCurrentTime_box_witness:
  "length weekend = 48 \<and> nonOverlapping weekend \<and>
   1672471800000 = x (weekend ! 9) + 30 * 60 * 1000 \<and>
   findCurrentTimeIndex 1672471800000 weekend \<noteq> - 1 \<and>
   annotateCurrentTime False 1672471800000 weekend =
     Some (Box (17 / 2) (19 / 2) 0 maxPrice ''rgba(205, 237, 246, 0.45)'' 0)"
proof -
  have a: "length weekend = 48 \<and> nonOverlapping weekend \<and>
      1672471800000 = x (weekend ! 9) + 30 * 60 * 1000"
    using weekend_length weekend_nonOverlapping weekend_tenth by simp
  with annotateCurrentTime_box [of False 1672471800000 weekend]
  have b: "annotateCurrentTime False 1672471800000 weekend =
     Some (Box (17 / 2) (19 / 2) 0 maxPrice ''rgba(205, 237, 246, 0.45)'' 0)"
    by simp
  with annotateCurrentTime_box [of False 1672471800000 weekend]
  have "findCurrentTimeIndex 1672471800000 weekend \<noteq> - 1" by simp
  with a b show ?thesis by simp
qed

section \<open>Properties of the day changes\<close>

lemma finnishDate_nonempty: "finnishDate tz t \<noteq> []"
  by (simp add: finnishDate_def split: prod.splits)

lemma reduceFrom_snoc: "reduceFrom f acc k (es @ [e]) = f (reduceFrom f acc k es) e (k + length es)"
  by (induction es arbitrary: acc k) simp_all

lemma foo_snoc: "foo tz (es @ [e]) = dayChange tz (foo tz es) e (length es)"
  by (simp add: foo_def reduce_def reduceFrom_snoc)

lemma foo_Nil: "foo tz [] = \<lparr>lastDate = [], indices = []\<rparr>"
  by (simp add: foo_def reduce_def)

lemma foo_lastDate: "lastDate (foo tz es) = (if es = [] then [] else finnishDate tz (x (last es)))"
  by (induction es rule: rev_induct) (auto simp: foo_Nil foo_snoc dayChange_def Let_def)

lemma foo_indices_snoc:
  "indices (foo tz (es @ [e])) =
     indices (foo tz es) @
       (if es \<noteq> [] \<and> finnishDate tz (x (last es)) \<noteq> finnishDate tz (x e) then [length es] else [])"
  by (auto simp: foo_snoc dayChange_def Let_def foo_lastDate finnishDate_nonempty)

lemma foo_indices:
  "indices (foo tz series) =
     filter (\<lambda>i. finnishDate tz (x (series ! i)) \<noteq> finnishDate tz (x (series ! (i - 1))))
       [1..<length series]"
proof (induction series rule: rev_induct)
  case Nil
  show ?case by (simp add: foo_Nil)
next
  case (snoc e es)
  show ?case
  proof (cases "es = []")
    case True
    then show ?thesis using foo_indices_snoc [of tz "[]" e] by (simp add: foo_Nil)
  next
    case False
    then have n: "1 \<le> length es" by (cases es) simp_all
    let ?P = "\<lambda>ps i. finnishDate tz (x (ps ! i)) \<noteq> finnishDate tz (x (ps ! (i - 1)))"
    have same: "filter (?P (es @ [e])) [1..<length es] = filter (?P es) [1..<length es]"
      by (rule filter_cong) (auto simp: nth_append)
    have lst: "(es @ [e]) ! (length es - 1) = last es"
      using False by (simp add: nth_append last_conv_nth)
    have new: "filter (?P (es @ [e])) [length es] =
        (if finnishDate tz (x (last es)) \<noteq> finnishDate tz (x e) then [length es] else [])"
      using lst by auto
    have up: "[1..<length (es @ [e])] = [1..<length es] @ [length es]"
      using n by simp
    have "filter (?P (es @ [e])) [1..<length (es @ [e])] =
        filter (?P (es @ [e])) [1..<length es] @ filter (?P (es @ [e])) [length es]"
      by (simp only: up filter_append)
    also have "\<dots> = filter (?P es) [1..<length es] @
        (if finnishDate tz (x (last es)) \<noteq> finnishDate tz (x e) then [length es] else [])"
      by (simp only: same new)
    also have "\<dots> = indices (foo tz (es @ [e]))"
      using False by (simp only: foo_indices_snoc snoc.IH) simp
    finally show ?thesis by simp
  qed
qed

lemma foo_indices_bound: "i \<in> set (indices (foo tz series)) \<Longrightarrow> 1 \<le> i \<and> i < length series"
  by (simp add: foo_indices)

lemma mapE_total: "(\<And>a. a \<in> set as \<Longrightarrow> f a = Inr (g a)) \<Longrightarrow> mapE f as = Inr (map g as)"
  by (induction as) simp_all

lemma nat_int_pred: "nat (int n - 1) = n - 1"
  by arith

lemma slice_butlast: "slice 0 (- 1) es = butlast es"
  by (cases "es = []") (simp_all add: slice_def relativeIndex_def Let_def butlast_conv_take nat_int_pred)

lemma sliceFrom_last2: "sliceFrom (- 2) es = drop (length es - 2) es"
  by (simp add: sliceFrom_def relativeIndex_def nat_diff_distrib max_def)

lemma annotateDayChanges_eq:
  "annotateDayChanges tz darkMode series =
     Inr (map (dayLine darkMode) (indices (foo tz series)) @
          (if series = [] then []
           else map (weekdayLabel tz darkMode series) (butlast (0 # indices (foo tz series)))))"
proof (cases "series = []")
  case True
  then show ?thesis by (simp add: annotateDayChanges_def)
next
  case False
  have "mapE (dayLabel tz darkMode series) (0 # indices (foo tz series)) =
      Inr (map (weekdayLabel tz darkMode series) (0 # indices (foo tz series)))"
  proof (rule mapE_total)
    fix i assume "i \<in> set (0 # indices (foo tz series))"
    then have "i < length series"
      using False foo_indices_bound [of i tz series] by auto
    then show "dayLabel tz darkMode series i = Inr (weekdayLabel tz darkMode series i)"
      by (simp add: dayLabel_def)
  qed
  with False show ?thesis
    by (simp add: annotateDayChanges_def slice_butlast map_butlast)
qed

lemma filter_isLine_lines: "filter isLine (map (dayLine darkMode) is) = map (dayLine darkMode) is"
  by (induction "is") (simp_all add: dayLine_def)

lemma filter_isLine_labels: "filter isLine (map (weekdayLabel tz darkMode series) is) = []"
  by (induction "is") (simp_all add: weekdayLabel_def)

lemma filter_isLabel_lines: "filter isLabel (map (dayLine darkMode) is) = []"
  by (induction "is") (simp_all add: dayLine_def)

lemma filter_isLabel_labels:
  "filter isLabel (map (weekdayLabel tz darkMode series) is) = map (weekdayLabel tz darkMode series) is"
  by (induction "is") (simp_all add: weekdayLabel_def)

lemma length_filter_Cons:
  "length (filter P (k # ks)) = (if P k then 1 else 0) + length (filter P ks)"
  by simp

lemma changes_filter:
  "length (filter (\<lambda>i. ds ! i \<noteq> ds ! (i - 1)) [1..<length ds]) = changes ds"
proof (induction ds rule: changes.induct)
  case (1 a b ds)
  let ?P = "\<lambda>i. (a # b # ds) ! i \<noteq> (a # b # ds) ! (i - 1)"
  let ?Q = "\<lambda>i. (b # ds) ! i \<noteq> (b # ds) ! (i - 1)"
  have up: "[1..<length (a # b # ds)] = 1 # map Suc [1..<length (b # ds)]"
    by (simp add: upt_conv_Cons map_Suc_upt del: upt_Suc)
  have "filter (?P \<circ> Suc) [1..<length (b # ds)] = filter ?Q [1..<length (b # ds)]"
    by (rule filter_cong) (auto simp: nth_Cons')
  then have "length (filter ?P (map Suc [1..<length (b # ds)])) = changes (b # ds)"
    using "1.IH" by (simp only: filter_map length_map)
  then have len: "length (filter ?P (map Suc [1..<length (b # ds)])) = changes (b # ds)" .
  have "length (filter ?P [1..<length (a # b # ds)]) =
      (if ?P 1 then 1 else 0) + length (filter ?P (map Suc [1..<length (b # ds)]))"
    unfolding up by (rule length_filter_Cons)
  also have "\<dots> = (if a \<noteq> b then 1 else 0) + changes (b # ds)"
    unfolding len by auto
  finally show ?case by simp
qed simp_all

lemma changes_card: "contiguous ds \<Longrightarrow> ds \<noteq> [] \<Longrightarrow> changes ds + 1 = card (set ds)"
proof (induction ds rule: changes.induct)
  case (1 a b ds)
  from "1.prems" have c: "contiguous (b # ds)" by simp
  with "1.IH" have ih: "changes (b # ds) + 1 = card (set (b # ds))" by simp
  show ?case
  proof (cases "a = b")
    case True
    then have "set (a # b # ds) = set (b # ds)" by auto
    with True ih show ?thesis by simp
  next
    case False
    with "1.prems" have "a \<notin> set (b # ds)" by simp
    then have "card (set (a # b # ds)) = Suc (card (set (b # ds)))" by simp
    with False ih show ?thesis by simp
  qed
qed simp_all

lemma boundaries_card:
  assumes "contiguous (localDates tz series)" "series \<noteq> []"
  shows "length (indices (foo tz series)) + 1 = card (set (localDates tz series))"
proof -
  let ?ds = "localDates tz series"
  have "filter (\<lambda>i. finnishDate tz (x (series ! i)) \<noteq> finnishDate tz (x (series ! (i - 1))))
       [1..<length series] = filter (\<lambda>i. ?ds ! i \<noteq> ?ds ! (i - 1)) [1..<length ?ds]"
    by (rule filter_cong) (auto simp: localDates_def)
  then have "length (indices (foo tz series)) = changes ?ds"
    by (simp only: foo_indices changes_filter)
  moreover from assms have "changes ?ds + 1 = card (set ?ds)"
    by (intro changes_card) (simp_all add: localDates_def)
  ultimately show ?thesis by simp
qed

lemma foo_indices_single:
  assumes "\<forall>p \<in> set series. finnishDate tz (x p) = finnishDate tz (x (hd series))"
  shows "indices (foo tz series) = []"
proof -
  have "\<And>i. i < length series \<Longrightarrow> finnishDate tz (x (series ! i)) = finnishDate tz (x (hd series))"
    using assms by simp
  then show ?thesis
    by (auto simp: foo_indices filter_empty_conv)
qed

lemma civil_examples:
  "civil_from_days 19356 = (2022, 12, 30)"
  "civil_from_days 19357 = (2022, 12, 31)"
  "civil_from_days 19358 = (2023, 1, 1)"
  by code_simp+

lemma finnishDate_EET: "finnishDate EET t =
     (case civil_from_days ((t + 7200000) div 86400000) of
        (yr, m, d) \<Rightarrow>
          decimal (nat yr) @ ''-'' @ padStart 2 CHR ''0'' (decimal (nat m)) @ ''-'' @
          padStart 2 CHR ''0'' (decimal (nat d)))"
  by (simp add: finnishDate_def EET_def msPerHour_def Day_def msPerDay_def)

text \<open>
  Claim C7, as amended. The boundary indices that \<^verbatim>\<open>annotateDayChanges\<close> collects are
  exactly the indices \<open>i \<ge> 1\<close> of the series, in order, whose Helsinki-local date differs
  from the date at index \<open>i - 1\<close>; the line annotations of the result are one line per such
  index, from 0 to \<open>maxPrice\<close> at \<open>i - 0.5\<close>; index 0 is never among them. For a non-empty
  series whose equal local dates are contiguous, the number of boundaries is the number of
  distinct local dates minus 1. The empty series has no boundary and no annotation.
\<close>

theorem annotateDayChanges_lines:
  "indices (foo tz series) =
     filter (\<lambda>i. finnishDate tz (x (series ! i)) \<noteq> finnishDate tz (x (series ! (i - 1))))
       [1..<length series] \<and>
   (\<exists>anns. annotateDayChanges tz darkMode series = Inr anns \<and>
      filter isLine anns =
        map (\<lambda>i. Line 0 maxPrice (of_nat i - 1 / 2) (of_nat i - 1 / 2)
                   (if darkMode then ''rgba(255,255,255,0.5)'' else ''rgba(0,0,0,0.5)''))
          (indices (foo tz series))) \<and>
   0 \<notin> set (indices (foo tz series)) \<and>
   (contiguous (localDates tz series) \<and> series \<noteq> [] \<longrightarrow>
      int (length (indices (foo tz series))) = int (card (set (localDates tz series))) - 1) \<and>
   indices (foo tz []) = [] \<and> annotateDayChanges tz darkMode [] = Inr []"
proof (intro conjI impI)
  show "indices (foo tz series) =
     filter (\<lambda>i. finnishDate tz (x (series ! i)) \<noteq> finnishDate tz (x (series ! (i - 1))))
       [1..<length series]"
    by (rule foo_indices)
next
  have "filter isLine (map (dayLine darkMode) (indices (foo tz series)) @
          (if series = [] then []
           else map (weekdayLabel tz darkMode series) (butlast (0 # indices (foo tz series))))) =
        map (dayLine darkMode) (indices (foo tz series))"
    by (simp add: filter_isLine_lines filter_isLine_labels)
  then have "\<exists>anns. annotateDayChanges tz darkMode series = Inr anns \<and>
      filter isLine anns = map (dayLine darkMode) (indices (foo tz series))"
    by (simp only: annotateDayChanges_eq) blast
  moreover have "dayLine darkMode =
      (\<lambda>i. Line 0 maxPrice (of_nat i - 1 / 2) (of_nat i - 1 / 2)
                   (if darkMode then ''rgba(255,255,255,0.5)'' else ''rgba(0,0,0,0.5)''))"
    by (rule ext) (simp only: dayLine_def)
  ultimately show "\<exists>anns. annotateDayChanges tz darkMode series = Inr anns \<and>
      filter isLine anns =
        map (\<lambda>i. Line 0 maxPrice (of_nat i - 1 / 2) (of_nat i - 1 / 2)
                   (if darkMode then ''rgba(255,255,255,0.5)'' else ''rgba(0,0,0,0.5)''))
          (indices (foo tz series))"
    by simp
next
  show "0 \<notin> set (indices (foo tz series))"
    using foo_indices_bound [of 0 tz series] by auto
next
  assume "contiguous (localDates tz series) \<and> series \<noteq> []"
  then have "length (indices (foo tz series)) + 1 = card (set (localDates tz series))"
    using boundaries_card [of tz series] by simp
  then show "int (length (indices (foo tz series))) = int (card (set (localDates tz series))) - 1"
    by simp
next
  show "indices (foo tz []) = []" by (simp add: foo_Nil)
next
  show "annotateDayChanges tz darkMode [] = Inr []"
    by (simp add: annotateDayChanges_def foo_Nil)
qed

text \<open>
  The empty series, which \<^verbatim>\<open>annotateDayChanges\<close> handles by its test on the length, has
  no boundary and no local date: 0 boundaries is not 0 dates minus 1.
\<close>

theorem annotateDayChanges_empty_series:
  "contiguous (localDates EET []) \<and>
   annotateDayChanges EET False [] = Inr [] \<and>
   length (indices (foo EET [])) = 0 \<and> card (set (localDates EET [])) = 0 \<and>
   int (length (indices (foo EET []))) \<noteq> int (card (set (localDates EET []))) - 1"
  by (simp add: localDates_def foo_Nil annotateDayChanges_def)

lemma turns_dates:
  "finnishDate EET 1672520400000 = ''2022-12-31''"
  "finnishDate EET 1672524000000 = ''2023-01-01''"
  "finnishDate EET 1672606800000 = ''2023-01-01''"
  "finnishDate EET 1672610400000 = ''2023-01-02''"
  "civil_from_days 19359 = (2023, 1, 2)"
proof -
  show c: "civil_from_days 19359 = (2023, 1, 2)" by code_simp
  show "finnishDate EET 1672520400000 = ''2022-12-31''"
    "finnishDate EET 1672524000000 = ''2023-01-01''"
    "finnishDate EET 1672606800000 = ''2023-01-01''"
    "finnishDate EET 1672610400000 = ''2023-01-02''"
    by (simp_all add: finnishDate_EET civil_examples c decimal.simps padStart_def)
qed

lemma turns_weekdays:
  "finnishWeekday EET 1672520400000 = ''lauantai''"
  "finnishWeekday EET 1672524000000 = ''sunnuntai''"
  by code_simp+

lemma turns_indices: "indices (foo EET turns) = [1, 3]"
  by (simp add: turns_def foo_def reduce_def dayChange_def Let_def turns_dates)

lemma turns_contiguous: "contiguous (localDates EET turns)"
  by (simp add: turns_def localDates_def turns_dates)

theorem annotateDayChanges_lines_witness:
  "contiguous (localDates EET turns) \<and> turns \<noteq> [] \<and>
   indices (foo EET turns) = [1, 3] \<and> card (set (localDates EET turns)) = 3 \<and>
   (\<exists>anns. annotateDayChanges EET False turns = Inr anns \<and>
      filter isLine anns =
        [Line 0 100 (1 / 2) (1 / 2) ''rgba(0,0,0,0.5)'',
         Line 0 100 (5 / 2) (5 / 2) ''rgba(0,0,0,0.5)''])"
proof -
  have ne: "turns \<noteq> []" by (simp add: turns_def)
  note t = annotateDayChanges_lines [of EET turns False]
  from t ne turns_contiguous
  have "int (length (indices (foo EET turns))) = int (card (set (localDates EET turns))) - 1"
    by blast
  then have c: "card (set (localDates EET turns)) = 3"
    by (simp add: turns_indices)
  from t obtain anns where a: "annotateDayChanges EET False turns = Inr anns"
    "filter isLine anns =
        map (\<lambda>i. Line 0 maxPrice (of_nat i - 1 / 2) (of_nat i - 1 / 2)
                   (if False then ''rgba(255,255,255,0.5)'' else ''rgba(0,0,0,0.5)''))
          (indices (foo EET turns))"
    by blast
  from a(2) have "filter isLine anns =
        [Line 0 100 (1 / 2) (1 / 2) ''rgba(0,0,0,0.5)'',
         Line 0 100 (5 / 2) (5 / 2) ''rgba(0,0,0,0.5)'']"
    by (simp add: turns_indices maxPrice_def)
  with a(1) have "\<exists>anns. annotateDayChanges EET False turns = Inr anns \<and>
      filter isLine anns =
        [Line 0 100 (1 / 2) (1 / 2) ''rgba(0,0,0,0.5)'',
         Line 0 100 (5 / 2) (5 / 2) ''rgba(0,0,0,0.5)'']"
    by blast
  with ne turns_contiguous turns_indices c show ?thesis by blast
qed

text \<open>
  Claim C3. For a non-empty series \<^verbatim>\<open>annotateDayChanges\<close> does not throw; its weekday
  labels are those of index 0 and of every boundary index, with the last one of that list
  dropped. The label of index \<open>i\<close> stands at \<open>i + 1\<close> and carries the Helsinki-local weekday
  name of the entry at \<open>i\<close>. So there are as many labels as boundaries (as line
  annotations), and none for a series of a single local date.
\<close>

theorem annotateDayChanges_labels:
  assumes "series \<noteq> []"
  shows "\<exists>anns. annotateDayChanges tz darkMode series = Inr anns \<and>
      filter isLabel anns =
        map (\<lambda>i. Label (of_nat i + 1) ''start'' (maxPrice - 1)
                   (finnishWeekday tz (x (series ! i)))
                   (if darkMode then ''rgba(255,255,255,0.5)'' else ''rgba(0,0,0,0.5)''))
          (butlast (0 # indices (foo tz series))) \<and>
      length (filter isLabel anns) = length (indices (foo tz series)) \<and>
      length (filter isLabel anns) = length (filter isLine anns) \<and>
      ((\<forall>p \<in> set series. finnishDate tz (x p) = finnishDate tz (x (hd series))) \<longrightarrow>
         filter isLabel anns = [])"
proof -
  let ?anns = "map (dayLine darkMode) (indices (foo tz series)) @
      map (weekdayLabel tz darkMode series) (butlast (0 # indices (foo tz series)))"
  have r: "annotateDayChanges tz darkMode series = Inr ?anns"
    using assms by (simp only: annotateDayChanges_eq if_False)
  have w: "weekdayLabel tz darkMode series =
      (\<lambda>i. Label (of_nat i + 1) ''start'' (maxPrice - 1)
                   (finnishWeekday tz (x (series ! i)))
                   (if darkMode then ''rgba(255,255,255,0.5)'' else ''rgba(0,0,0,0.5)''))"
    by (rule ext) (simp only: weekdayLabel_def)
  have labels: "filter isLabel ?anns =
      map (weekdayLabel tz darkMode series) (butlast (0 # indices (foo tz series)))"
    by (simp only: filter_append filter_isLabel_lines filter_isLabel_labels append_Nil)
  have lines: "filter isLine ?anns = map (dayLine darkMode) (indices (foo tz series))"
    by (simp only: filter_append filter_isLine_lines filter_isLine_labels append_Nil2)
  have count: "length (filter isLabel ?anns) = length (indices (foo tz series))"
    unfolding labels by simp
  have same: "length (filter isLabel ?anns) = length (filter isLine ?anns)"
    unfolding count lines by simp
  have single: "(\<forall>p \<in> set series. finnishDate tz (x p) = finnishDate tz (x (hd series))) \<longrightarrow>
      filter isLabel ?anns = []"
    unfolding labels by (auto simp: foo_indices_single)
  have labels': "filter isLabel ?anns =
      map (\<lambda>i. Label (of_nat i + 1) ''start'' (maxPrice - 1)
                   (finnishWeekday tz (x (series ! i)))
                   (if darkMode then ''rgba(255,255,255,0.5)'' else ''rgba(0,0,0,0.5)''))
        (butlast (0 # indices (foo tz series)))"
    by (simp only: labels) (simp only: w)
  from r labels' count same single show ?thesis
    by blast
qed

theorem annotateDayChanges_labels_witness:
  "turns \<noteq> [] \<and>
   (\<exists>anns. annotateDayChanges EET False turns = Inr anns \<and>
      filter isLabel anns =
        [Label 1 ''start'' 99 ''lauantai'' ''rgba(0,0,0,0.5)'',
         Label 2 ''start'' 99 ''sunnuntai'' ''rgba(0,0,0,0.5)''] \<and>
      length (filter isLine anns) = 2)"
proof -
  have ne: "turns \<noteq> []" by (simp add: turns_def)
  from annotateDayChanges_labels [OF ne, of EET False] obtain anns where a:
    "annotateDayChanges EET False turns = Inr anns"
    "filter isLabel anns =
        map (\<lambda>i. Label (of_nat i + 1) ''start'' (maxPrice - 1)
                   (finnishWeekday EET (x (turns ! i)))
                   (if False then ''rgba(255,255,255,0.5)'' else ''rgba(0,0,0,0.5)''))
          (butlast (0 # indices (foo EET turns)))"
    "length (filter isLabel anns) = length (filter isLine anns)"
    by blast
  from a(2) have l: "filter isLabel anns =
        [Label 1 ''start'' 99 ''lauantai'' ''rgba(0,0,0,0.5)'',
         Label 2 ''start'' 99 ''sunnuntai'' ''rgba(0,0,0,0.5)'']"
    by (simp add: turns_indices maxPrice_def) (simp add: turns_def turns_weekdays)
  with a(3) have "length (filter isLine anns) = 2" by simp
  with ne a(1) l show ?thesis by blast
qed

section \<open>Properties of the assembled series\<close>

lemma sliceFrom_last: "sliceFrom (- 1) es = (if es = [] then [] else [last es])"
proof (cases "es = []")
  case True
  then show ?thesis by (simp add: sliceFrom_def)
next
  case False
  then have "es = butlast es @ [last es]" by simp
  then have "drop (length (butlast es)) es = [last es]"
    by (metis append_eq_conv_conj)
  then have "drop (length es - 1) es = [last es]" by simp
  with False show ?thesis
    by (simp add: sliceFrom_def relativeIndex_def nat_int_pred)
qed

lemma getStaticProps_eq:
  "getStaticProps tz parse s3 now =
     (case results tz parse s3 now of
        Inl e \<Rightarrow> Inl e
      | Inr rs \<Rightarrow>
          if dataset rs = [] then Inl TypeError
          else Inr \<lparr>backgroundColor = map (\<lambda>q. colorDataPoint (y q)) (dataset rs),
                    data = dataset rs,
                    revalidate = dataValidForSeconds now (x (last (dataset rs)))\<rparr>)"
  by (simp add: getStaticProps_def sliceFrom_last split: sum.splits)

lemma getStaticProps_Inr:
  assumes "getStaticProps tz parse s3 now = Inr props"
  shows "\<exists>rs. results tz parse s3 now = Inr rs \<and> dataset rs \<noteq> [] \<and> data props = dataset rs \<and>
           revalidate props = dataValidForSeconds now (x (last (dataset rs)))"
  using assms by (auto simp: getStaticProps_eq split: sum.splits if_splits)

lemma mapE_Inr: "mapE f as = Inr bs \<Longrightarrow> map f as = map Inr bs"
  by (induction as arbitrary: bs) (auto split: sum.splits)

lemma mapE_length: "mapE f as = Inr bs \<Longrightarrow> length bs = length as"
  by (induction as arbitrary: bs) (auto split: sum.splits)

lemma requests_eq:
  "requests tz s3 now =
     [s3 (finnishDate tz (now - 24 * 60 * 60 * 1000) @ ''.json''),
      s3 (finnishDate tz now @ ''.json''),
      s3 (finnishDate tz (now + 24 * 60 * 60 * 1000) @ ''.json'')]"
  by (simp add: requests_def dateStrings_def)

text \<open>
  Claim C2, as amended. If none of the three requests is fulfilled, \<^verbatim>\<open>getStaticProps\<close>
  produces no series: it ends in a \<^verbatim>\<open>TypeError\<close> that nothing catches, thrown when it
  reads the last entry of the empty dataset. The source has no \<^verbatim>\<open>DataUnavailable\<close>
  value and no \<^verbatim>\<open>try\<close>.
\<close>

theorem getStaticProps_no_data:
  assumes "\<forall>r \<in> set (requests tz s3 now). \<not> isFulfilled r"
  shows "getStaticProps tz parse s3 now = Inl TypeError"
proof -
  from assms have "filter isFulfilled (requests tz s3 now) = []"
    by (simp add: filter_empty_conv)
  then have "results tz parse s3 now = Inr []"
    by (simp add: results_def retained_def sliceFrom_def)
  then show ?thesis
    by (simp add: getStaticProps_eq dataset_def)
qed

lemma afternoon_dates:
  "finnishDate EET 1672405200000 = ''2022-12-30''"
  "finnishDate EET 1672491600000 = ''2022-12-31''"
  "finnishDate EET 1672578000000 = ''2023-01-01''"
  by (simp_all add: finnishDate_EET civil_examples decimal.simps padStart_def)

lemma morning_dates:
  "finnishDate EET 1672398000000 = ''2022-12-30''"
  "finnishDate EET 1672484400000 = ''2022-12-31''"
  "finnishDate EET 1672570800000 = ''2023-01-01''"
  by (simp_all add: finnishDate_EET civil_examples decimal.simps padStart_def)

lemma results_afternoon:
  "results EET parseDay (bucketOf untilSunday) 1672491600000 = Inr [saturday, sunday]"
  by (simp add: results_def retained_def requests_eq afternoon_dates bucketOf_def untilSunday_def
      untilSaturday_def sliceFrom_last2 parseBody_def parseDay_def)

lemma results_morning:
  "results EET parseDay (bucketOf untilSaturday) 1672484400000 = Inr [friday, saturday]"
  by (simp add: results_def retained_def requests_eq morning_dates bucketOf_def
      untilSaturday_def sliceFrom_last2 parseBody_def parseDay_def)

lemma weekend_last: "x (last weekend) = 1672606800000"
  by code_simp

lemma friday_saturday_last: "x (last (dataset [friday, saturday])) = 1672520400000"
  by code_simp

lemma friday_saturday_length: "length (dataset [friday, saturday]) = 48"
  by code_simp

lemma afternoon_seconds: "dataValidForSeconds 1672491600000 1672606800000 = 60"
  by code_simp

lemma getStaticProps_afternoon:
  "getStaticProps EET parseDay (bucketOf untilSunday) 1672491600000 =
     Inr \<lparr>backgroundColor = map (\<lambda>q. colorDataPoint (y q)) weekend, data = weekend, revalidate = 60\<rparr>"
proof -
  have "weekend \<noteq> []" using weekend_length by auto
  then show ?thesis
    using weekend_last afternoon_seconds
    by (simp add: getStaticProps_eq results_afternoon weekend_def [symmetric])
qed

text \<open>
  With an empty bucket all three requests are rejected, and the outcome is the uncaught
  exception, not a result value.
\<close>

theorem getStaticProps_all_rejected:
  "getStaticProps EET parseDay (bucketOf []) 1672491600000 = Inl TypeError"
  by (simp add: getStaticProps_eq results_def retained_def requests_eq bucketOf_def sliceFrom_def
      dataset_def)

theorem getStaticProps_no_data_witness:
  "list_all (\<lambda>r. \<not> isFulfilled r)
     (requests EET (bucketOf [(''2022-12-25.json'', ''sunday'')]) 1672484400000) \<and>
   getStaticProps EET parseDay (bucketOf [(''2022-12-25.json'', ''sunday'')]) 1672484400000 =
     Inl TypeError"
proof -
  have h: "\<forall>r \<in> set (requests EET (bucketOf [(''2022-12-25.json'', ''sunday'')]) 1672484400000).
      \<not> isFulfilled r"
    by (simp add: requests_eq morning_dates bucketOf_def)
  from getStaticProps_no_data [OF h, of parseDay] h show ?thesis
    by (simp add: list_all_iff)
qed

lemma retained_length: "length (retained tz s3 now) \<le> 2"
  by (simp add: retained_def sliceFrom_last2)

lemma card_image_length: "card (f ` set rs) \<le> length rs"
  by (metis card_image_le card_length le_trans List.finite_set)

text \<open>
  Claim C8. The settled requests that are kept are the last two fulfilled ones, so at
  most two; when all three requests are fulfilled they are today's and tomorrow's, and
  yesterday's is dropped. The series of a returned result is the dataset of at most two
  day sets, hence of at most two distinct dates: the parsed bodies of the requests kept.
\<close>

theorem retained_last_two:
  "length (retained tz s3 now) \<le> 2 \<and>
   retained tz s3 now =
     drop (length (filter isFulfilled (requests tz s3 now)) - 2)
       (filter isFulfilled (requests tz s3 now)) \<and>
   ((\<forall>r \<in> set (requests tz s3 now). isFulfilled r) \<longrightarrow>
      retained tz s3 now =
        [s3 (finnishDate tz now @ ''.json''),
         s3 (finnishDate tz (now + 24 * 60 * 60 * 1000) @ ''.json'')]) \<and>
   (\<forall>props. getStaticProps tz parse s3 now = Inr props \<longrightarrow>
      (\<exists>rs. length rs \<le> 2 \<and> card (date ` set rs) \<le> 2 \<and>
            map (parseBody parse) (retained tz s3 now) = map Inr rs \<and>
            data props = dataset rs))"
proof (intro conjI allI impI)
  show "length (retained tz s3 now) \<le> 2" by (rule retained_length)
next
  show "retained tz s3 now =
     drop (length (filter isFulfilled (requests tz s3 now)) - 2)
       (filter isFulfilled (requests tz s3 now))"
    by (simp add: retained_def sliceFrom_last2)
next
  assume "\<forall>r \<in> set (requests tz s3 now). isFulfilled r"
  then have "filter isFulfilled (requests tz s3 now) = requests tz s3 now"
    by simp
  then show "retained tz s3 now =
        [s3 (finnishDate tz now @ ''.json''),
         s3 (finnishDate tz (now + 24 * 60 * 60 * 1000) @ ''.json'')]"
    by (simp add: retained_def sliceFrom_last2) (simp add: requests_eq)
next
  fix props
  assume "getStaticProps tz parse s3 now = Inr props"
  from getStaticProps_Inr [OF this] obtain rs where
    rs: "results tz parse s3 now = Inr rs" "data props = dataset rs"
    by blast
  from rs(1) have m: "map (parseBody parse) (retained tz s3 now) = map Inr rs"
    unfolding results_def by (rule mapE_Inr)
  from rs(1) have "length rs = length (retained tz s3 now)"
    unfolding results_def by (rule mapE_length)
  with retained_length [of tz s3 now] have l: "length rs \<le> 2" by simp
  with card_image_length [of date rs] have "card (date ` set rs) \<le> 2" by simp
  with l m rs(2) show "\<exists>rs. length rs \<le> 2 \<and> card (date ` set rs) \<le> 2 \<and>
            map (parseBody parse) (retained tz s3 now) = map Inr rs \<and>
            data props = dataset rs"
    by blast
qed

lemma requests_afternoon:
  "requests EET (bucketOf untilSunday) 1672491600000 =
     [fulfilled \<lparr>Body = Some ''friday''\<rparr>, fulfilled \<lparr>Body = Some ''saturday''\<rparr>,
      fulfilled \<lparr>Body = Some ''sunday''\<rparr>]"
  by (simp add: requests_eq afternoon_dates bucketOf_def untilSunday_def untilSaturday_def)

theorem retained_last_two_witness:
  "list_all isFulfilled (requests EET (bucketOf untilSunday) 1672491600000) \<and>
   retained EET (bucketOf untilSunday) 1672491600000 =
     [fulfilled \<lparr>Body = Some ''saturday''\<rparr>, fulfilled \<lparr>Body = Some ''sunday''\<rparr>] \<and>
   (\<exists>props rs. getStaticProps EET parseDay (bucketOf untilSunday) 1672491600000 = Inr props \<and>
      length rs \<le> 2 \<and> data props = dataset rs)"
proof -
  have f: "\<forall>r \<in> set (requests EET (bucketOf untilSunday) 1672491600000). isFulfilled r"
    by (simp add: requests_afternoon)
  note t = retained_last_two [of EET "bucketOf untilSunday" 1672491600000 parseDay]
  from t f have "retained EET (bucketOf untilSunday) 1672491600000 =
        [bucketOf untilSunday (finnishDate EET 1672491600000 @ ''.json''),
         bucketOf untilSunday (finnishDate EET (1672491600000 + 24 * 60 * 60 * 1000) @ ''.json'')]"
    by blast
  then have r: "retained EET (bucketOf untilSunday) 1672491600000 =
     [fulfilled \<lparr>Body = Some ''saturday''\<rparr>, fulfilled \<lparr>Body = Some ''sunday''\<rparr>]"
    by (simp add: afternoon_dates bucketOf_def untilSunday_def untilSaturday_def)
  from t getStaticProps_afternoon
  have "\<exists>props rs. getStaticProps EET parseDay (bucketOf untilSunday) 1672491600000 = Inr props \<and>
      length rs \<le> 2 \<and> data props = dataset rs"
    by blast
  with f r show ?thesis by (simp add: list_all_iff)
qed

lemma dataset_x: "map x (dataset rs) = concat (map (\<lambda>d. map startTime (hourPrices d)) rs)"
  by (simp add: dataset_def map_concat comp_def)

lemma october_civil:
  "civil_from_days 19659 = (2023, 10, 29)"
  "civil_from_days 19660 = (2023, 10, 30)"
  by code_simp+

lemma october_dateStrings:
  "dateStrings helsinki2023 1698615000000 = [''2023-10-29'', ''2023-10-29'', ''2023-10-30'']"
  by (simp add: dateStrings_def finnishDate_def helsinki2023_def Day_def msPerDay_def
      msPerHour_def october_civil decimal.simps padStart_def)

lemma october_requests:
  "requests helsinki2023 (bucketOf onlyOctober29) 1698615000000 =
     [fulfilled \<lparr>Body = Some ''october29''\<rparr>, fulfilled \<lparr>Body = Some ''october29''\<rparr>,
      rejected]"
  by (simp add: requests_def october_dateStrings bucketOf_def onlyOctober29_def)

lemma october_results:
  "results helsinki2023 parseOctober (bucketOf onlyOctober29) 1698615000000 =
     Inr [october29, october29]"
  by (simp add: results_def retained_def october_requests sliceFrom_last2 parseBody_def
      parseOctober_def)

lemma october_hours:
  "hoursIncreasing october29"
  "length (hourPrices october29) = 25"
  by code_simp+

lemma october_series:
  "length (dataset [october29, october29]) = 50"
  "x (dataset [october29, october29] ! 0) = 1698526800000"
  "x (dataset [october29, october29] ! 25) = 1698526800000"
  "x (last (dataset [october29, october29])) = 1698613200000"
  by code_simp+

lemma october_seconds: "dataValidForSeconds 1698615000000 1698613200000 = 60"
  by code_simp

text \<open>
  Claim C9. On 2023-10-29 at 21:30 UTC (23:30 in Helsinki, on the 25-hour day that ends
  summer time) the instant 24 hours earlier is 00:30 of the same Helsinki date, so the
  first two requests are both for \<^verbatim>\<open>2023-10-29.json\<close>, not for yesterday and today. With
  the prices of 2023-10-30 absent, both copies are kept: the day set is in order, and the
  series holds each of its 25 start times twice, so it is not strictly increasing.
\<close>

theorem getStaticProps_summer_time_end:
  "dateStrings helsinki2023 1698615000000 = [''2023-10-29'', ''2023-10-29'', ''2023-10-30''] \<and>
   requests helsinki2023 (bucketOf onlyOctober29) 1698615000000 =
     [fulfilled \<lparr>Body = Some ''october29''\<rparr>, fulfilled \<lparr>Body = Some ''october29''\<rparr>,
      rejected] \<and>
   hoursIncreasing october29 \<and>
   getStaticProps helsinki2023 parseOctober (bucketOf onlyOctober29) 1698615000000 =
     Inr \<lparr>backgroundColor = map (\<lambda>q. colorDataPoint (y q)) (dataset [october29, october29]),
          data = dataset [october29, october29],
          revalidate = 60\<rparr> \<and>
   length (dataset [october29, october29]) = 50 \<and>
   x (dataset [october29, october29] ! 0) = 1698526800000 \<and>
   x (dataset [october29, october29] ! 25) = 1698526800000 \<and>
   \<not> distinct (map x (dataset [october29, october29])) \<and>
   \<not> sorted_wrt (<) (map x (dataset [october29, october29]))"
proof -
  have ne: "dataset [october29, october29] \<noteq> []"
    using october_series(1) by auto
  then have run: "getStaticProps helsinki2023 parseOctober (bucketOf onlyOctober29) 1698615000000 =
     Inr \<lparr>backgroundColor = map (\<lambda>q. colorDataPoint (y q)) (dataset [october29, october29]),
          data = dataset [october29, october29],
          revalidate = 60\<rparr>"
    using october_series(4) october_seconds
    by (simp add: getStaticProps_eq october_results)
  have "(0 :: nat) < 50 \<and> (25 :: nat) < 50 \<and> (0 :: nat) \<noteq> 25 \<and>
      x (dataset [october29, october29] ! 0) = x (dataset [october29, october29] ! 25)"
    using october_series(2,3) by simp
  then have "\<exists>i < 50. \<exists>j < 50. i \<noteq> j \<and>
      x (dataset [october29, october29] ! i) = x (dataset [october29, october29] ! j)"
    by blast
  then have nd: "\<not> distinct (map x (dataset [october29, october29]))"
    using october_series(1) by (simp add: distinct_conv_nth)
  then have ns: "\<not> sorted_wrt (<) (map x (dataset [october29, october29]))"
    by (simp add: strict_sorted_iff)
  from october_dateStrings october_requests october_hours(1) run october_series(1-3) nd ns
  show ?thesis by blast
qed

section \<open>Properties of the refresh schedule\<close>

lemma nextUpdate_same_day:
  assumes "Day lastStartTime = Day now"
  shows "nextUpdate now lastStartTime = MakeDate (Day now) (12 * msPerHour)"
  using assms
  by (simp add: nextUpdate_def getUTCDate_def getUTCMonth_def DateFromTime_def MonthFromTime_def
      setUTCHours_def)

lemma time_split: "now = MakeDate (Day now) (TimeWithinDay now)"
  by (simp add: MakeDate_def Day_def TimeWithinDay_def)

text \<open>
  The \<^verbatim>\<open>revalidate\<close> value that \<^verbatim>\<open>getStaticProps\<close> returns is
  max(floor((nextUpdate - now) / 1000), 60) for the \<open>nextUpdate\<close> that the source computes,
  so it is at least 60. When \<open>now\<close> is 11:00 UTC and the series ends with an hour of
  \<open>now\<close>'s own UTC day, \<open>nextUpdate\<close> is that day at 12:00 UTC and the value is 3600.
\<close>

lemma revalidate_floor:
  assumes "getStaticProps tz parse s3 now = Inr props"
  shows "revalidate props = max ((nextUpdate now (x (last (data props))) - now) div 1000) 60 \<and>
         revalidate props \<ge> 60 \<and>
         (TimeWithinDay now = 11 * msPerHour \<and> Day (x (last (data props))) = Day now \<longrightarrow>
            nextUpdate now (x (last (data props))) = MakeDate (Day now) (12 * msPerHour) \<and>
            revalidate props = 3600)"
proof -
  from getStaticProps_Inr [OF assms] have
    r: "revalidate props = dataValidForSeconds now (x (last (data props)))"
    by auto
  then have f: "revalidate props = max ((nextUpdate now (x (last (data props))) - now) div 1000) 60"
    by (simp add: dataValidForSeconds_def)
  from f have g: "revalidate props \<ge> 60" by simp
  have i: "TimeWithinDay now = 11 * msPerHour \<and> Day (x (last (data props))) = Day now \<longrightarrow>
            nextUpdate now (x (last (data props))) = MakeDate (Day now) (12 * msPerHour) \<and>
            revalidate props = 3600"
  proof (intro impI conjI)
    assume a: "TimeWithinDay now = 11 * msPerHour \<and> Day (x (last (data props))) = Day now"
    then show n: "nextUpdate now (x (last (data props))) = MakeDate (Day now) (12 * msPerHour)"
      by (simp add: nextUpdate_same_day)
    from a time_split [of now] have "now = MakeDate (Day now) (11 * msPerHour)" by simp
    then have "nextUpdate now (x (last (data props))) - now = msPerHour"
      unfolding n by (simp add: MakeDate_def)
    then show "revalidate props = 3600"
      unfolding f by (simp add: msPerHour_def)
  qed
  from f g i show ?thesis by blast
qed

text \<open>
  On 2022-12-31 at 11:00 UTC, with the prices of 2023-01-01 not yet published, the series
  ends on 2022-12-31 at 21:00 UTC and the result is valid for an hour.
\<close>

lemma getStaticProps_morning:
  "getStaticProps EET parseDay (bucketOf untilSaturday) 1672484400000 =
     Inr \<lparr>backgroundColor = map (\<lambda>q. colorDataPoint (y q)) (dataset [friday, saturday]),
          data = dataset [friday, saturday],
          revalidate = 3600\<rparr>"
proof -
  have "dataset [friday, saturday] \<noteq> []" using friday_saturday_length by auto
  moreover have "dataValidForSeconds 1672484400000 1672520400000 = 3600" by code_simp
  ultimately show ?thesis
    using friday_saturday_last
    by (simp add: getStaticProps_eq results_morning)
qed

text \<open>
  Claim C6, as amended. For two times \<open>now1 \<le> now2\<close> with the same \<open>nextUpdate\<close>,
  \<^verbatim>\<open>dataValidForSeconds\<close> does not increase from \<open>now1\<close> to \<open>now2\<close>; it decreases
  strictly when the two times are at least one second apart and the later one is at least
  60 seconds before \<open>nextUpdate\<close>.
\<close>

theorem dataValidForSeconds_monotone:
  assumes "now1 \<le> now2"
    and "nextUpdate now1 lastStartTime = nextUpdate now2 lastStartTime"
  shows "dataValidForSeconds now2 lastStartTime \<le> dataValidForSeconds now1 lastStartTime \<and>
         (now1 + 1000 \<le> now2 \<and> now2 + 60 * 1000 \<le> nextUpdate now2 lastStartTime \<longrightarrow>
            dataValidForSeconds now2 lastStartTime < dataValidForSeconds now1 lastStartTime)"
proof (intro conjI impI)
  let ?n = "nextUpdate now2 lastStartTime"
  from assms(1) have "(?n - now2) div 1000 \<le> (?n - now1) div 1000"
    by (intro zdiv_mono1) simp_all
  then show "dataValidForSeconds now2 lastStartTime \<le> dataValidForSeconds now1 lastStartTime"
    by (simp add: dataValidForSeconds_def assms(2))
next
  let ?n = "nextUpdate now2 lastStartTime"
  assume a: "now1 + 1000 \<le> now2 \<and> now2 + 60 * 1000 \<le> ?n"
  then have "(?n - now2 + 1000) div 1000 \<le> (?n - now1) div 1000"
    by (intro zdiv_mono1) simp_all
  then have s: "(?n - now2) div 1000 + 1 \<le> (?n - now1) div 1000"
    by simp
  from a have "60000 div 1000 \<le> (?n - now2) div 1000"
    by (intro zdiv_mono1) simp_all
  then have "60 \<le> (?n - now2) div 1000" by simp
  with s show "dataValidForSeconds now2 lastStartTime < dataValidForSeconds now1 lastStartTime"
    by (simp add: dataValidForSeconds_def assms(2))
qed

lemma morning_nextUpdate:
  "nextUpdate 1672484400000 1672520400000 = 1672488000000"
  "nextUpdate 1672484400001 1672520400000 = 1672488000000"
  "nextUpdate 1672484400002 1672520400000 = 1672488000000"
  "nextUpdate 1672484401000 1672520400000 = 1672488000000"
  by code_simp+

text \<open>
  Two times one millisecond apart, both an hour before the same \<open>nextUpdate\<close>, get the same
  value: the division by 1000 rounds down to whole seconds.
\<close>

theorem dataValidForSeconds_not_strict:
  "(1672484400001 :: int) < 1672484400002 \<and>
   nextUpdate 1672484400001 1672520400000 = nextUpdate 1672484400002 1672520400000 \<and>
   1672484400002 < nextUpdate 1672484400002 1672520400000 \<and>
   dataValidForSeconds 1672484400001 1672520400000 = 3599 \<and>
   dataValidForSeconds 1672484400002 1672520400000 = 3599"
  by (simp add: dataValidForSeconds_def morning_nextUpdate)

theorem dataValidForSeconds_monotone_witness:
  "(1672484400000 :: int) + 1000 \<le> 1672484401000 \<and>
   nextUpdate 1672484400000 1672520400000 = nextUpdate 1672484401000 1672520400000 \<and>
   1672484401000 + 60 * 1000 \<le> nextUpdate 1672484401000 1672520400000 \<and>
   dataValidForSeconds 1672484401000 1672520400000 < dataValidForSeconds 1672484400000 1672520400000"
proof -
  have le: "(1672484400000 :: int) \<le> 1672484401000" by simp
  have eq: "nextUpdate 1672484400000 1672520400000 = nextUpdate 1672484401000 1672520400000"
    by (simp add: morning_nextUpdate)
  have far: "(1672484400000 :: int) + 1000 \<le> 1672484401000 \<and>
      1672484401000 + 60 * 1000 \<le> nextUpdate 1672484401000 1672520400000"
    by (simp add: morning_nextUpdate)
  from dataValidForSeconds_monotone [OF le eq] far
  have "dataValidForSeconds 1672484401000 1672520400000 <
      dataValidForSeconds 1672484400000 1672520400000"
    by blast
  with eq far show ?thesis by blast
qed

lemma february_dates:
  "civil_from_days 19388 = (2023, 1, 31)"
  "civil_from_days 19389 = (2023, 2, 1)"
  "civil_from_days 19390 = (2023, 2, 2)"
  by code_simp+

lemma february_requests:
  "requests EET (bucketOf onlyTuesday) 1675249200000 =
     [fulfilled \<lparr>Body = Some ''tuesday''\<rparr>, rejected, rejected]"
  by (simp add: requests_eq finnishDate_EET february_dates decimal.simps padStart_def
      bucketOf_def onlyTuesday_def)

lemma february_results:
  "results EET parseDay (bucketOf onlyTuesday) 1675249200000 = Inr [tuesday]"
  by (simp add: results_def retained_def february_requests sliceFrom_last2 parseBody_def
      parseDay_def)

lemma tuesday_last: "x (last (dataset [tuesday])) = 1675198800000"
  by code_simp

lemma tuesday_length: "length (dataset [tuesday]) = 24"
  by code_simp

text \<open>
  Claim C5. On 2023-02-01 at 11:00 UTC the bucket holds the prices of 2023-01-31 and of
  no later day, so tomorrow's data is absent and the series ends on 2023-01-31 at 21:00
  UTC. \<^verbatim>\<open>getStaticProps\<close> still moves \<open>nextUpdate\<close> to the next day's noon, because day
  31 is greater than day 1, and returns a validity of 90000 seconds (25 hours), not 3600.
\<close>

theorem getStaticProps_first_of_month:
  "TimeWithinDay 1675249200000 = 11 * msPerHour \<and>
   requests EET (bucketOf onlyTuesday) 1675249200000 =
     [fulfilled \<lparr>Body = Some ''tuesday''\<rparr>, rejected, rejected] \<and>
   x (last (dataset [tuesday])) = 1675198800000 \<and>
   getUTCDate 1675198800000 = 31 \<and> getUTCDate 1675249200000 = 1 \<and>
   nextUpdate 1675249200000 1675198800000 = setUTCHours 1675249200000 12 0 0 0 + msPerDay \<and>
   getStaticProps EET parseDay (bucketOf onlyTuesday) 1675249200000 =
     Inr \<lparr>backgroundColor = map (\<lambda>q. colorDataPoint (y q)) (dataset [tuesday]),
          data = dataset [tuesday],
          revalidate = 90000\<rparr>"
proof -
  have a: "TimeWithinDay 1675249200000 = 11 * msPerHour" by code_simp
  have b: "getUTCDate 1675198800000 = 31 \<and> getUTCDate 1675249200000 = 1 \<and>
      nextUpdate 1675249200000 1675198800000 = setUTCHours 1675249200000 12 0 0 0 + msPerDay"
    by code_simp
  have c: "dataValidForSeconds 1675249200000 1675198800000 = 90000" by code_simp
  have "dataset [tuesday] \<noteq> []" using tuesday_length by auto
  then have "getStaticProps EET parseDay (bucketOf onlyTuesday) 1675249200000 =
     Inr \<lparr>backgroundColor = map (\<lambda>q. colorDataPoint (y q)) (dataset [tuesday]),
          data = dataset [tuesday],
          revalidate = 90000\<rparr>"
    using tuesday_last c by (simp add: getStaticProps_eq february_results)
  with a b february_requests tuesday_last show ?thesis by simp
qed

text \<open>
  Claim C1. On 2022-12-31 at 13:00 UTC the prices of 2023-01-01 are published, and the
  series ends on 2023-01-01 at 21:00 UTC: the date of its last entry is after the date of
  \<open>now\<close>. \<^verbatim>\<open>getStaticProps\<close> still leaves \<open>nextUpdate\<close> at 2022-12-31 12:00 UTC, which
  is already past, and returns the floor of 60 seconds: day 1 is not greater than day 31,
  and month 0 (January) is not greater than month 11 (December). The comparison of day and
  month numbers misses the change of year.
\<close>

theorem getStaticProps_new_year:
  "YearFromTime 1672491600000 = 2022 \<and> getUTCMonth 1672491600000 = 11 \<and>
   getUTCDate 1672491600000 = 31 \<and>
   x (last weekend) = 1672606800000 \<and>
   YearFromTime 1672606800000 = 2023 \<and> getUTCMonth 1672606800000 = 0 \<and>
   getUTCDate 1672606800000 = 1 \<and>
   nextUpdate 1672491600000 1672606800000 = setUTCHours 1672491600000 12 0 0 0 \<and>
   nextUpdate 1672491600000 1672606800000 < 1672491600000 \<and>
   getStaticProps EET parseDay (bucketOf untilSunday) 1672491600000 =
     Inr \<lparr>backgroundColor = map (\<lambda>q. colorDataPoint (y q)) weekend, data = weekend,
          revalidate = 60\<rparr>"
proof -
  have "YearFromTime 1672491600000 = 2022 \<and> getUTCMonth 1672491600000 = 11 \<and>
      getUTCDate 1672491600000 = 31 \<and>
      YearFromTime 1672606800000 = 2023 \<and> getUTCMonth 1672606800000 = 0 \<and>
      getUTCDate 1672606800000 = 1 \<and>
      nextUpdate 1672491600000 1672606800000 = setUTCHours 1672491600000 12 0 0 0 \<and>
      nextUpdate 1672491600000 1672606800000 < 1672491600000"
    by code_simp
  with weekend_last getStaticProps_afternoon show ?thesis by simp
qed

end
